theory Spec2Isabelle
  imports Complex_Main "HOL-Library.AList"
begin

section \<open>Python values\<close>

text \<open>
  A Python \<open>str\<close> is a sequence of Unicode code points; a code point is a natural
  number.  \<open>ascii\<close> embeds an ASCII literal; the accented letters of the Portuguese
  literals of \<open>app.py\<close> are written as their code points (227 is a-tilde, 231 is
  c-cedilla, and so on).
\<close>

type_synonym pystr = "nat list"

definition ascii :: "string \<Rightarrow> pystr" where
  "ascii s = map of_char s"

text \<open>
  What \<open>request.json\<close> and \<open>json.load\<close> produce: \<open>None\<close>, \<open>bool\<close>, \<open>int\<close>,
  \<open>float\<close>, \<open>str\<close>, \<open>list\<close> and \<open>dict\<close>.  A dict is an association list read
  with \<open>map_of\<close>; the handler only looks keys up, tests emptiness and tests key
  membership.  The payload of a float is never inspected by the handler.
\<close>

datatype json =
    JNull
  | JBool bool
  | JInt int
  | JFloat real
  | JStr pystr
  | JList "json list"
  | JObj "(pystr \<times> json) list"

text \<open>
  Exceptions, each with its \<open>str(e)\<close>.  \<open>KeyError\<close> stands for \<open>KeyError\<close> and its
  subclasses (what \<open>except KeyError\<close> catches), \<open>OtherException\<close> for every other
  subclass of \<open>Exception\<close> that is not a \<open>TypeError\<close>.
\<close>

datatype py_exc =
    KeyError pystr
  | TypeError pystr
  | OtherException pystr

fun exc_str :: "py_exc \<Rightarrow> pystr" where
  "exc_str (KeyError m) = m"
| "exc_str (TypeError m) = m"
| "exc_str (OtherException m) = m"

subsection \<open>String methods\<close>

text \<open>\<open>str.isspace\<close> on one code point: the white space that \<open>str.strip()\<close> removes.\<close>

definition isspace :: "nat \<Rightarrow> bool" where
  "isspace c =
     ((9 \<le> c \<and> c \<le> 13) \<or> (28 \<le> c \<and> c \<le> 32) \<or> c = 133 \<or> c = 160 \<or> c = 5760
      \<or> (8192 \<le> c \<and> c \<le> 8202) \<or> c = 8232 \<or> c = 8233 \<or> c = 8239 \<or> c = 8287
      \<or> c = 12288)"

definition py_strip :: "pystr \<Rightarrow> pystr" where
  "py_strip s = rev (dropWhile isspace (rev (dropWhile isspace s)))"

text \<open>\<open>s.split(sep)\<close> for a separator of one character: \<open>''''.split('','')\<close> is \<open>['''']\<close>.\<close>

fun py_split :: "nat \<Rightarrow> pystr \<Rightarrow> pystr list" where
  "py_split sep [] = [[]]"
| "py_split sep (c # cs) =
     (if c = sep then [] # py_split sep cs
      else (case py_split sep cs of [] \<Rightarrow> [[c]] | x # xs \<Rightarrow> (c # x) # xs))"

text \<open>
  \<open>s.replace(old, new)\<close>: the occurrences of \<open>old\<close> are replaced from left to
  right, without overlap.  Every call of the source has a non-empty \<open>old\<close>.
\<close>

function py_replace :: "pystr \<Rightarrow> pystr \<Rightarrow> pystr \<Rightarrow> pystr" where
  "py_replace old new [] = []"
| "py_replace old new (c # cs) =
     (if old \<noteq> [] \<and> take (length old) (c # cs) = old
      then new @ py_replace old new (drop (length old) (c # cs))
      else c # py_replace old new cs)"
  by pat_completeness auto
termination
  by (relation "measure (\<lambda>(old, new, s). length s)") auto

text \<open>\<open>a in b\<close> for two strings: \<open>a\<close> occurs in \<open>b\<close> as a substring.\<close>

fun is_substring :: "pystr \<Rightarrow> pystr \<Rightarrow> bool" where
  "is_substring a [] = (a = [])"
| "is_substring a (c # cs) = (take (length a) (c # cs) = a \<or> is_substring a cs)"

text \<open>
  \<open>sep.join(xs)\<close>.  The handler never joins; a client that sends the tags of a
  list as one comma-separated string builds it so.
\<close>

fun py_join :: "pystr \<Rightarrow> pystr list \<Rightarrow> pystr" where
  "py_join sep [] = []"
| "py_join sep [x] = x"
| "py_join sep (x # y # ys) = x @ sep @ py_join sep (y # ys)"

subsection \<open>Dictionaries\<close>

text \<open>\<open>d.get(k, default)\<close>.\<close>

definition dict_get :: "(pystr \<times> json) list \<Rightarrow> pystr \<Rightarrow> json \<Rightarrow> json" where
  "dict_get d k dflt = (case map_of d k of None \<Rightarrow> dflt | Some v \<Rightarrow> v)"

text \<open>
  \<open>type(v).__name__\<close> and the \<open>TypeError\<close> of \<open>x in v\<close> for a \<open>v\<close> that is no container
  (the wording of CPython up to 3.13).
\<close>

fun type_name :: "json \<Rightarrow> pystr" where
  "type_name JNull = ascii ''NoneType''"
| "type_name (JBool b) = ascii ''bool''"
| "type_name (JInt i) = ascii ''int''"
| "type_name (JFloat r) = ascii ''float''"
| "type_name (JStr s) = ascii ''str''"
| "type_name (JList xs) = ascii ''list''"
| "type_name (JObj kvs) = ascii ''dict''"

definition not_iterable :: "json \<Rightarrow> py_exc" where
  "not_iterable v =
     TypeError (ascii ''argument of type '' @ [39] @ type_name v @ [39] @ ascii '' is not iterable'')"

text \<open>
  \<open>difficulty in input_difficulties\<close>, the left operand a \<open>str\<close>: membership in a
  list (a \<open>str\<close> equals only an equal \<open>str\<close>), key membership in a dict, substring
  test in a \<open>str\<close>, and \<open>TypeError\<close> on \<open>None\<close>, a \<open>bool\<close>, an \<open>int\<close> or a \<open>float\<close>.
\<close>

fun py_in :: "pystr \<Rightarrow> json \<Rightarrow> py_exc + bool" where
  "py_in d (JList xs) = Inr (JStr d \<in> set xs)"
| "py_in d (JObj kvs) = Inr (d \<in> fst ` set kvs)"
| "py_in d (JStr s) = Inr (is_substring d s)"
| "py_in d JNull = Inl (not_iterable JNull)"
| "py_in d (JBool b) = Inl (not_iterable (JBool b))"
| "py_in d (JInt i) = Inl (not_iterable (JInt i))"
| "py_in d (JFloat r) = Inl (not_iterable (JFloat r))"

section \<open>Module-level state of \<open>app.py\<close>\<close>

text \<open>
  The feature row \<open>input_data\<close>: a dict from column name to a one-element list, in
  insertion order.  \<open>input_data[k] = v\<close> is \<open>AList.update k v\<close>: it replaces the value
  of a key already present and keeps its position, and appends a new key.
  \<open>pd.DataFrame(input_data)\<close> is handed to the model as that dict.
\<close>

type_synonym feature_row = "(pystr \<times> json list) list"

text \<open>
  The loaded pipeline is known by its \<open>predict\<close> alone:
  \<open>pipeline.predict(input_df)[0]\<close> is an integer cluster id, or an exception.
\<close>

type_synonym model = "feature_row \<Rightarrow> py_exc + int"

record app_state =
  pipeline :: "model option"
  politicas_base :: json
  all_difficulties :: "pystr list"
  categorical_cols_for_ohe :: "pystr list"

subsection \<open>Startup loader (lines 12 to 35)\<close>

datatype load_exc =
    FileNotFoundError pystr
  | LoadException pystr

text \<open>The two \<open>except\<close> branches; each assigns all four names.\<close>

fun load_failed :: "load_exc \<Rightarrow> app_state" where
  "load_failed (FileNotFoundError m) =
     \<lparr>pipeline = None, politicas_base = JObj [], all_difficulties = [],
      categorical_cols_for_ohe = []\<rparr>"
| "load_failed (LoadException m) =
     \<lparr>pipeline = None, politicas_base = JObj [], all_difficulties = [],
      categorical_cols_for_ohe = []\<rparr>"

text \<open>
  The \<open>try\<close> block: \<open>joblib.load\<close> and the three \<open>json.load\<close> calls in their order,
  each given by its outcome; the first failure leaves the block.  The two vocabulary
  files hold lists of strings.  The \<open>print\<close> calls write to the log only and are
  left out.
\<close>

definition load_files ::
  "load_exc + model \<Rightarrow> load_exc + json \<Rightarrow> load_exc + pystr list \<Rightarrow> load_exc + pystr list
   \<Rightarrow> app_state" where
  "load_files model_pipeline_pkl politicas_base_json all_difficulties_json
      categorical_cols_for_ohe_json =
     (case model_pipeline_pkl of Inl e \<Rightarrow> load_failed e | Inr p \<Rightarrow>
      (case politicas_base_json of Inl e \<Rightarrow> load_failed e | Inr pb \<Rightarrow>
       (case all_difficulties_json of Inl e \<Rightarrow> load_failed e | Inr ad \<Rightarrow>
        (case categorical_cols_for_ohe_json of Inl e \<Rightarrow> load_failed e | Inr cc \<Rightarrow>
           \<lparr>pipeline = Some p, politicas_base = pb, all_difficulties = ad,
            categorical_cols_for_ohe = cc\<rparr>))))"

subsection \<open>\<open>politicas_sugeridas_por_cluster\<close> (lines 40 to 69)\<close>

definition politicas_sugeridas_por_cluster :: "(int \<times> pystr list) list" where
  "politicas_sugeridas_por_cluster =
    [(0,
      [ascii ''Criar editais espec'' @ [237] @ ascii ''ficos para grupos vulner'' @ [225] @ ascii ''veis (PCD, baixa renda, sem forma'' @ [231] @ [227] @ ascii ''o).'',
       ascii ''Garantir bolsas de apoio financeiro para participa'' @ [231] @ [227] @ ascii ''o em oficinas e cursos.'',
       ascii ''Criar programas de capacita'' @ [231] @ [227] @ ascii ''o inicial em arte e cultura voltados '' @ [224] @ ascii '' inclus'' @ [227] @ ascii ''o social.'',
       ascii ''Oferecer apoio log'' @ [237] @ ascii ''stico (transporte, alimenta'' @ [231] @ [227] @ ascii ''o) para participa'' @ [231] @ [227] @ ascii ''o em atividades culturais.'',
       ascii ''Incentivar projetos de arte comunit'' @ [225] @ ascii ''ria em bairros perif'' @ [233] @ ascii ''ricos.'']),
     (1,
      [ascii ''Fortalecer canais de divulga'' @ [231] @ [227] @ ascii ''o e forma'' @ [231] @ [227] @ ascii ''o t'' @ [233] @ ascii ''cnica para artistas em in'' @ [237] @ ascii ''cio de carreira.'',
       ascii ''Disponibilizar mentorias com artistas experientes e gestores culturais.'',
       ascii ''Incentivar parcerias entre artistas emergentes e institui'' @ [231] @ [245] @ ascii ''es culturais locais.'',
       ascii ''Criar feiras, mostras e festivais voltados a talentos em ascens'' @ [227] @ ascii ''o.'',
       ascii ''Oferecer cursos de capacita'' @ [231] @ [227] @ ascii ''o em gest'' @ [227] @ ascii ''o de carreira e produ'' @ [231] @ [227] @ ascii ''o cultural.'']),
     (2,
      [ascii ''Ampliar incentivos '' @ [224] @ ascii '' profissionaliza'' @ [231] @ [227] @ ascii ''o e registro formal de artistas.'',
       ascii ''Criar linhas de microcr'' @ [233] @ ascii ''dito espec'' @ [237] @ ascii ''ficas para artistas formalizados.'',
       ascii ''Oferecer capacita'' @ [231] @ [227] @ ascii ''o em gest'' @ [227] @ ascii ''o de carreira, marketing e direitos autorais.'',
       ascii ''Promover programas de certifica'' @ [231] @ [227] @ ascii ''o de compet'' @ [234] @ ascii ''ncias art'' @ [237] @ ascii ''sticas.'',
       ascii ''Incentivar a participa'' @ [231] @ [227] @ ascii ''o em cooperativas e associa'' @ [231] @ [245] @ ascii ''es de classe.'']),
     (3,
      [ascii ''Estimular redes de coopera'' @ [231] @ [227] @ ascii ''o entre artistas e produtores culturais.'',
       ascii ''Promover interc'' @ [226] @ ascii ''mbios culturais regionais, nacionais e internacionais.'',
       ascii ''Fomentar o uso de tecnologias digitais para ampliar o alcance do trabalho art'' @ [237] @ ascii ''stico.'',
       ascii ''Criar programas de resid'' @ [234] @ ascii ''ncia art'' @ [237] @ ascii ''stica em diferentes linguagens.'',
       ascii ''Apoiar iniciativas de economia criativa e inova'' @ [231] @ [227] @ ascii ''o cultural.''])]"

section \<open>The handler \<open>recommend\<close> (lines 82 to 128)\<close>

datatype response = Response (status: nat) (body: json)

text \<open>\<open>jsonify({"error": msg}), code\<close>.\<close>

definition error_response :: "nat \<Rightarrow> pystr \<Rightarrow> response" where
  "error_response code msg = Response code (JObj [(ascii ''error'', JStr msg)])"

definition servico_indisponivel :: pystr where
  "servico_indisponivel =
     ascii ''Servi'' @ [231] @ ascii ''o indispon'' @ [237] @ ascii ''vel: Modelo n'' @ [227] @ ascii ''o carregado. Contacte o administrador.''"

definition requisicao_invalida :: pystr where
  "requisicao_invalida =
     ascii ''Requisi'' @ [231] @ [227] @ ascii ''o inv'' @ [225] @ ascii ''lida: Dados JSON esperados.''"

definition erro_de_chave :: pystr where
  "erro_de_chave =
     ascii ''Erro de chave: Verifique se todos os campos esperados est'' @ [227] @ ascii ''o no JSON de entrada. Detalhe: ''"

definition erro_interno :: pystr where
  "erro_interno =
     ascii ''Erro interno no servidor ao processar a requisi'' @ [231] @ [227] @ ascii ''o. Detalhe: ''"

definition nao_informado :: pystr where
  "nao_informado = ascii ''N'' @ [227] @ ascii ''o informado''"

definition nenhuma_politica :: pystr where
  "nenhuma_politica =
     ascii ''Nenhuma pol'' @ [237] @ ascii ''tica sugerida para este perfil no momento.''"

text \<open>Lines 95 to 97: one column for each name of \<open>categorical_cols_for_ohe\<close>.\<close>

fun categorical_loop :: "pystr list \<Rightarrow> (pystr \<times> json) list \<Rightarrow> feature_row \<Rightarrow> feature_row" where
  "categorical_loop [] data input_data = input_data"
| "categorical_loop (col # cols) data input_data =
     categorical_loop cols data
       (AList.update col [dict_get data col (JStr nao_informado)] input_data)"

text \<open>Line 102: the comprehension over \<open>input_difficulties.split('','')\<close>.\<close>

definition split_difficulties :: "pystr \<Rightarrow> pystr list" where
  "split_difficulties s =
     map py_strip (filter (\<lambda>d. py_strip d \<noteq> []) (py_split 44 s))"

text \<open>Lines 100 to 102: the value of \<open>input_difficulties\<close> when the second loop starts.\<close>

definition input_difficulties :: "(pystr \<times> json) list \<Rightarrow> json" where
  "input_difficulties data =
     (case dict_get data (ascii ''Dificuldades_Divulgacao_Digital'') (JList []) of
        JStr s \<Rightarrow> JList (map JStr (split_difficulties s))
      | v \<Rightarrow> v)"

text \<open>Line 106.\<close>

definition clean_difficulty_name :: "pystr \<Rightarrow> pystr" where
  "clean_difficulty_name difficulty =
     ascii ''Dificuldade_'' @
     py_replace (ascii ''__'') (ascii ''_'')
      (py_replace (ascii ''.'') []
       (py_replace (ascii '':'') []
        (py_replace (ascii '')'') []
         (py_replace (ascii ''('') []
          (py_replace (ascii ''-'') (ascii ''_'')
           (py_replace (ascii ''/'') (ascii ''_'')
            (py_replace (ascii '' '') (ascii ''_'') difficulty)))))))"

text \<open>
  Lines 104 to 107: one 0/1 column for each tag of \<open>all_difficulties\<close>.  The
  membership test of line 107 may raise; the loop is outside the \<open>try\<close> of line 112, so
  the exception leaves the handler.
\<close>

fun difficulty_loop :: "pystr list \<Rightarrow> json \<Rightarrow> feature_row \<Rightarrow> py_exc + feature_row" where
  "difficulty_loop [] inp input_data = Inr input_data"
| "difficulty_loop (difficulty # ds) inp input_data =
     (case py_in difficulty inp of
        Inl e \<Rightarrow> Inl e
      | Inr b \<Rightarrow>
          difficulty_loop ds inp
            (AList.update (clean_difficulty_name difficulty) [JInt (if b then 1 else 0)]
               input_data))"

text \<open>Lines 95 to 110: the feature row of a request object.\<close>

definition build_row :: "app_state \<Rightarrow> (pystr \<times> json) list \<Rightarrow> py_exc + feature_row" where
  "build_row st data =
     difficulty_loop (all_difficulties st) (input_difficulties data)
       (categorical_loop (categorical_cols_for_ohe st) data [])"

text \<open>Line 117: \<open>politicas_sugeridas_por_cluster.get(predicted_cluster, [...])\<close>.\<close>

definition recommendations_for :: "int \<Rightarrow> pystr list" where
  "recommendations_for predicted_cluster =
     (case map_of politicas_sugeridas_por_cluster predicted_cluster of
        None \<Rightarrow> [nenhuma_politica]
      | Some recs \<Rightarrow> recs)"

text \<open>Lines 112 to 128: the \<open>try\<close> block around \<open>predict\<close> and its two handlers.\<close>

definition predict_and_respond :: "model \<Rightarrow> feature_row \<Rightarrow> response" where
  "predict_and_respond p input_df =
     (case p input_df of
        Inr predicted_cluster \<Rightarrow>
          Response 200
            (JObj [(ascii ''cluster'', JInt predicted_cluster),
                   (ascii ''recommendations'',
                    JList (map JStr (recommendations_for predicted_cluster)))])
      | Inl (KeyError m) \<Rightarrow> error_response 400 (erro_de_chave @ m)
      | Inl e \<Rightarrow> error_response 500 (erro_interno @ exc_str e))"

text \<open>
  What the client sent, as far as \<open>request.json\<close> of line 88 tells it apart: a
  request whose content type is not JSON (a request without a body among them), a
  request of JSON content type whose body is empty or is no JSON text, and a request
  whose body parses to a value.
\<close>

datatype request_body =
    NotJsonType
  | Unparsable
  | Json json

text \<open>
  \<open>request.json\<close> as Flask 2.1 and later evaluate it: the parsed value (\<open>JNull\<close> is
  \<open>None\<close>, from the body \<open>null\<close>), or a raised werkzeug \<open>HTTPException\<close>, given by
  its status code: \<open>UnsupportedMediaType\<close> (415) for a content type that is not JSON,
  \<open>BadRequest\<close> (400) for a body that does not parse.
\<close>

fun request_json :: "request_body \<Rightarrow> nat + json" where
  "request_json NotJsonType = Inl 415"
| "request_json Unparsable = Inl 400"
| "request_json (Json v) = Inr v"

text \<open>
  What leaves the handler when it returns no response: an exception that no \<open>except\<close>
  clause caught, or the \<open>HTTPException\<close> of \<open>request.json\<close>, which the framework
  turns into its own error page of that status.
\<close>

datatype escaped =
    Unhandled py_exc
  | HTTPException nat

text \<open>
  The handler, on the module state and the request.  The result is the response the
  handler returns, or what leaves the handler instead.
\<close>

definition recommend :: "app_state \<Rightarrow> request_body \<Rightarrow> escaped + response" where
  "recommend st req =
     (case pipeline st of
        None \<Rightarrow> Inr (error_response 503 servico_indisponivel)
      | Some p \<Rightarrow>
          (case request_json req of
             Inl code \<Rightarrow> Inl (HTTPException code)
           | Inr data \<Rightarrow>
               (case data of
                  JObj d \<Rightarrow>
                    (if d = [] then Inr (error_response 400 requisicao_invalida)
                     else (case build_row st d of
                             Inl e \<Rightarrow> Inl (Unhandled e)
                           | Inr input_df \<Rightarrow> Inr (predict_and_respond p input_df)))
                | _ \<Rightarrow> Inr (error_response 400 requisicao_invalida))))"

section \<open>The handler statement by statement, on a store\<close>

text \<open>
  The store of one call of the handler: the module-level names, which the handler
  shares with every other call, and the handler's local variables.  Every statement
  of lines 83 to 128 is a function on the store; an assignment updates the variable
  it assigns to, and a statement that reads a module-level name reads it from the
  store it is run on.
\<close>

record store =
  module_state :: app_state
  var_data :: json
  var_input_data :: feature_row
  var_input_difficulties :: json

text \<open>Line 97 for each \<open>col\<close> of the list line 96 iterates; \<open>d\<close> is the dict \<open>data\<close>.\<close>

fun exec_categorical_loop :: "pystr list \<Rightarrow> (pystr \<times> json) list \<Rightarrow> store \<Rightarrow> store" where
  "exec_categorical_loop [] d s = s"
| "exec_categorical_loop (col # cols) d s =
     exec_categorical_loop cols d
       (s\<lparr>var_input_data :=
            AList.update col [dict_get d col (JStr nao_informado)] (var_input_data s)\<rparr>)"

text \<open>
  Line 107 for each \<open>difficulty\<close> of the list line 104 iterates.  The result is the
  exception the membership test raised, if any, and the store at that moment.
\<close>

fun exec_difficulty_loop :: "pystr list \<Rightarrow> store \<Rightarrow> py_exc option \<times> store" where
  "exec_difficulty_loop [] s = (None, s)"
| "exec_difficulty_loop (difficulty # ds) s =
     (case py_in difficulty (var_input_difficulties s) of
        Inl e \<Rightarrow> (Some e, s)
      | Inr b \<Rightarrow>
          exec_difficulty_loop ds
            (s\<lparr>var_input_data :=
                 AList.update (clean_difficulty_name difficulty) [JInt (if b then 1 else 0)]
                   (var_input_data s)\<rparr>))"

text \<open>
  Lines 110 to 128.  Line 114 reads \<open>pipeline\<close> again; on \<open>None\<close> the attribute
  access raises \<open>AttributeError\<close>, which the \<open>except Exception\<close> of line 125 turns into
  the response of line 128.
\<close>

definition exec_try :: "store \<Rightarrow> response \<times> store" where
  "exec_try s =
     (case pipeline (module_state s) of
        None \<Rightarrow>
          (error_response 500
             (erro_interno @ [39] @ ascii ''NoneType'' @ [39]
                @ ascii '' object has no attribute '' @ [39] @ ascii ''predict'' @ [39]), s)
      | Some p \<Rightarrow> (predict_and_respond p (var_input_data s), s))"

text \<open>Lines 83 to 128 in their order.\<close>

definition exec_recommend :: "request_body \<Rightarrow> store \<Rightarrow> (escaped + response) \<times> store" where
  "exec_recommend req s =
     (case pipeline (module_state s) of
        None \<Rightarrow> (Inr (error_response 503 servico_indisponivel), s)
      | Some p \<Rightarrow>
          (case request_json req of
             Inl code \<Rightarrow> (Inl (HTTPException code), s)
           | Inr v \<Rightarrow>
               (let s1 = s\<lparr>var_data := v\<rparr> in
                (case var_data s1 of
                   JObj d \<Rightarrow>
                     (if d = [] then (Inr (error_response 400 requisicao_invalida), s1)
                      else
                        (let s2 = s1\<lparr>var_input_data := []\<rparr>;
                             s3 = exec_categorical_loop
                                    (categorical_cols_for_ohe (module_state s2)) d s2;
                             s4 = s3\<lparr>var_input_difficulties := input_difficulties d\<rparr>
                         in (case exec_difficulty_loop (all_difficulties (module_state s4)) s4 of
                               (Some e, s5) \<Rightarrow> (Inl (Unhandled e), s5)
                             | (None, s5) \<Rightarrow>
                                 (case exec_try s5 of (r, s6) \<Rightarrow> (Inr r, s6)))))
                 | _ \<Rightarrow> (Inr (error_response 400 requisicao_invalida), s1)))))"

text \<open>
  One call of the handler by the serving process: the locals are new (not yet
  assigned), the module-level names are those of the process, and the call leaves to
  the process the module-level part of its last store.
\<close>

definition recommend_call ::
  "app_state \<Rightarrow> request_body \<Rightarrow> (escaped + response) \<times> app_state" where
  "recommend_call st req =
     (case exec_recommend req
             \<lparr>module_state = st, var_data = JNull, var_input_data = [],
              var_input_difficulties = JNull\<rparr> of
        (r, s) \<Rightarrow> (r, module_state s))"

text \<open>The process serving a sequence of requests, one call after the other.\<close>

fun serve :: "app_state \<Rightarrow> request_body list \<Rightarrow> (escaped + response) list \<times> app_state" where
  "serve st [] = ([], st)"
| "serve st (req # rest) =
     (case recommend_call st req of
        (r, st') \<Rightarrow> (case serve st' rest of (rs, st'') \<Rightarrow> (r # rs, st'')))"

subsection \<open>A loaded state for the examples\<close>

text \<open>
  Two categorical columns and three difficulty tags (the two of the specification's
  third scenario among them), and a model that answers cluster 0 on every row.
\<close>

definition example_state :: app_state where
  "example_state =
     \<lparr>pipeline = Some (\<lambda>input_df. Inr 0), politicas_base = JObj [],
      all_difficulties =
        [ascii ''Falta de tempo'', ascii ''Falta de recursos'', ascii ''Alcance (redes sociais)''],
      categorical_cols_for_ohe = [ascii ''Genero'', ascii ''Faixa_Etaria'']\<rparr>"

section \<open>Properties\<close>

subsection \<open>The two loops that fill the feature row\<close>

lemma map_of_categorical_loop:
  "map_of (categorical_loop cols data acc) col =
     (if col \<in> set cols then Some [dict_get data col (JStr nao_informado)] else map_of acc col)"
  by (induction cols arbitrary: acc) (auto simp add: update_conv')

lemma map_of_difficulty_loop_other:
  "difficulty_loop ds inp acc = Inr row \<Longrightarrow> col \<notin> clean_difficulty_name ` set ds \<Longrightarrow>
   map_of row col = map_of acc col"
  by (induction ds arbitrary: acc) (auto simp add: update_conv' split: sum.splits)

lemma map_of_difficulty_loop_flag:
  "difficulty_loop ds inp acc = Inr row \<Longrightarrow> difficulty_loop ds inp acc' = Inr row' \<Longrightarrow>
   col \<in> clean_difficulty_name ` set ds \<Longrightarrow> map_of row col = map_of row' col"
proof (induction ds arbitrary: acc acc')
  case Nil
  then show ?case by simp
next
  case (Cons t ts)
  from Cons.prems(1) obtain b where b: "py_in t inp = Inr b"
    by (cases "py_in t inp") auto
  let ?u = "AList.update (clean_difficulty_name t) [JInt (if b then 1 else 0)]"
  from Cons.prems(1,2) b
  have rest: "difficulty_loop ts inp (?u acc) = Inr row" "difficulty_loop ts inp (?u acc') = Inr row'"
    by simp_all
  show ?case
  proof (cases "col \<in> clean_difficulty_name ` set ts")
    case True
    with rest show ?thesis by (rule Cons.IH)
  next
    case False
    with Cons.prems(3) have col: "col = clean_difficulty_name t" by auto
    from rest False have "map_of row col = map_of (?u acc) col" "map_of row' col = map_of (?u acc') col"
      by (auto dest: map_of_difficulty_loop_other)
    then show ?thesis by (simp add: col update_conv')
  qed
qed

lemma difficulty_loop_list_total: "\<exists>row. difficulty_loop ds (JList xs) acc = Inr row"
  by (induction ds arbitrary: acc) auto

lemma difficulty_loop_dict_total: "\<exists>row. difficulty_loop ds (JObj kvs) acc = Inr row"
  by (induction ds arbitrary: acc) auto

subsection \<open>Splitting a joined string\<close>

lemma py_split_no_sep: "sep \<notin> set a \<Longrightarrow> py_split sep a = [a]"
  by (induction a) auto

lemma py_split_at_sep: "sep \<notin> set a \<Longrightarrow> py_split sep (a @ sep # b) = a # py_split sep b"
  by (induction a) auto

lemma py_strip_padded:
  assumes "x \<noteq> []" "\<not> isspace (hd x)" "\<not> isspace (last x)"
    and "\<forall>c\<in>set q. isspace c" "\<forall>c\<in>set r. isspace c"
  shows "py_strip (q @ x @ r) = x"
proof -
  from assms(1,2) have lead: "dropWhile isspace (x @ r) = x @ r"
    by (cases x) auto
  from assms(1,3) have trail: "dropWhile isspace (rev x) = rev x"
    by (cases x rule: rev_cases) auto
  have "dropWhile isspace (q @ x @ r) = x @ r"
    using assms(4) lead dropWhile_append2 [of q isspace "x @ r"] by auto
  moreover have "dropWhile isspace (rev r @ rev x) = rev x"
    using assms(5) trail dropWhile_append2 [of "rev r" isspace "rev x"] by auto
  ultimately show ?thesis
    by (simp add: py_strip_def)
qed

lemma isspace_comma: "\<not> isspace 44"
  by (simp add: isspace_def)

lemma split_difficulties_at_comma:
  "44 \<notin> set a \<Longrightarrow>
   split_difficulties (a @ 44 # b) =
     (if py_strip a = [] then [] else [py_strip a]) @ split_difficulties b"
  by (simp add: split_difficulties_def py_split_at_sep)

lemma split_difficulties_no_comma:
  "44 \<notin> set a \<Longrightarrow> split_difficulties a = (if py_strip a = [] then [] else [py_strip a])"
  by (simp add: split_difficulties_def py_split_no_sep)

lemma split_join_padded:
  assumes "\<forall>c\<in>set pre. isspace c" "\<forall>c\<in>set post. isspace c"
  shows "\<forall>c\<in>set q. isspace c \<Longrightarrow>
    \<forall>t\<in>set (x # xs). t \<noteq> [] \<and> 44 \<notin> set t \<and> \<not> isspace (hd t) \<and> \<not> isspace (last t) \<Longrightarrow>
    split_difficulties (q @ py_join (pre @ 44 # post) (x # xs)) = x # xs"
proof (induction xs arbitrary: q x)
  case Nil
  then have "44 \<notin> set (q @ x)"
    using isspace_comma by auto
  moreover have "py_strip (q @ x) = x"
    using py_strip_padded [of x q "[]"] Nil by simp
  ultimately show ?case
    using Nil by (simp add: split_difficulties_no_comma del: set_append)
next
  case (Cons y ys)
  have nc: "44 \<notin> set (q @ x @ pre)"
    using Cons.prems assms(1) isspace_comma by auto
  have st: "py_strip (q @ x @ pre) = x"
    using py_strip_padded [of x q pre] Cons.prems assms(1) by simp
  have x: "x \<noteq> []"
    using Cons.prems by simp
  have "split_difficulties (q @ py_join (pre @ 44 # post) (x # y # ys))
        = split_difficulties ((q @ x @ pre) @ 44 # (post @ py_join (pre @ 44 # post) (y # ys)))"
    by simp
  also have "\<dots> = (if py_strip (q @ x @ pre) = [] then [] else [py_strip (q @ x @ pre)])
        @ split_difficulties (post @ py_join (pre @ 44 # post) (y # ys))"
    by (rule split_difficulties_at_comma [OF nc])
  also have "\<dots> = x # split_difficulties (post @ py_join (pre @ 44 # post) (y # ys))"
    using st x by simp
  also have "\<dots> = x # y # ys"
    using Cons.IH [of post y] assms(2) Cons.prems by simp
  finally show ?case .
qed

lemma split_join:
  assumes "\<forall>c\<in>set pre. isspace c" "\<forall>c\<in>set post. isspace c"
    and "\<forall>t\<in>set L. t \<noteq> [] \<and> 44 \<notin> set t \<and> \<not> isspace (hd t) \<and> \<not> isspace (last t)"
  shows "split_difficulties (py_join (pre @ 44 # post) L) = L"
proof (cases L)
  case Nil
  then show ?thesis by (simp add: split_difficulties_def py_strip_def)
next
  case (Cons x xs)
  then show ?thesis
    using split_join_padded [OF assms(1,2), of "[]" x xs] assms(3) by simp
qed

subsection \<open>The response of the \<open>try\<close> block\<close>

lemma recommendations_for_nonempty: "recommendations_for c \<noteq> []"
  by (auto simp add: recommendations_for_def politicas_sugeridas_por_cluster_def
      split: option.splits if_splits)

lemma predict_and_respond_200:
  "predict_and_respond p row = Response 200 b \<Longrightarrow>
   \<exists>c. p row = Inr c \<and> b = JObj [(ascii ''cluster'', JInt c),
        (ascii ''recommendations'', JList (map JStr (recommendations_for c)))]"
  by (auto simp add: predict_and_respond_def error_response_def split: sum.splits py_exc.splits)

lemma predict_key_error_400:
  "p row = Inl (KeyError m) \<Longrightarrow>
   predict_and_respond p row = Response 400 (JObj [(ascii ''error'', JStr (erro_de_chave @ m))])"
  by (simp add: predict_and_respond_def error_response_def)

lemma predict_other_error_500:
  "p row = Inl e \<Longrightarrow> \<forall>m. e \<noteq> KeyError m \<Longrightarrow>
   predict_and_respond p row = Response 500 (JObj [(ascii ''error'', JStr (erro_interno @ exc_str e))])"
  by (cases e) (simp_all add: predict_and_respond_def error_response_def)

lemma recommend_predict_key_error:
  "pipeline st = Some p \<Longrightarrow> d \<noteq> [] \<Longrightarrow> build_row st d = Inr row \<Longrightarrow>
   p row = Inl (KeyError m) \<Longrightarrow>
   recommend st (Json (JObj d))
     = Inr (Response 400 (JObj [(ascii ''error'', JStr (erro_de_chave @ m))]))"
  by (simp add: recommend_def predict_key_error_400)

lemma recommend_predict_other_error:
  "pipeline st = Some p \<Longrightarrow> d \<noteq> [] \<Longrightarrow> build_row st d = Inr row \<Longrightarrow>
   p row = Inl e \<Longrightarrow> \<forall>m. e \<noteq> KeyError m \<Longrightarrow>
   recommend st (Json (JObj d))
     = Inr (Response 500 (JObj [(ascii ''error'', JStr (erro_interno @ exc_str e))]))"
  by (simp add: recommend_def predict_other_error_500)

subsection \<open>The statements of the handler and the module state\<close>

lemma exec_categorical_loop_module:
  "module_state (exec_categorical_loop cols d s) = module_state s"
  by (induction cols arbitrary: s) simp_all

lemma exec_categorical_loop_difficulties:
  "var_input_difficulties (exec_categorical_loop cols d s) = var_input_difficulties s"
  by (induction cols arbitrary: s) simp_all

lemma exec_categorical_loop_row:
  "var_input_data (exec_categorical_loop cols d s) = categorical_loop cols d (var_input_data s)"
  by (induction cols arbitrary: s) simp_all

lemma exec_difficulty_loop_module:
  "module_state (snd (exec_difficulty_loop ds s)) = module_state s"
  by (induction ds arbitrary: s) (simp_all split: sum.splits)

lemma exec_difficulty_loop_row:
  "(case exec_difficulty_loop ds s of
      (None, s') \<Rightarrow> Inr (var_input_data s')
    | (Some e, s') \<Rightarrow> Inl e)
   = difficulty_loop ds (var_input_difficulties s) (var_input_data s)"
  by (induction ds arbitrary: s) (simp_all split: sum.splits)

lemma exec_try_module: "module_state (snd (exec_try s)) = module_state s"
  by (simp add: exec_try_def split: option.splits)

lemma exec_recommend_module: "module_state (snd (exec_recommend req s)) = module_state s"
proof -
  have loop: "module_state (snd (case exec_difficulty_loop ds s4 of
                  (Some e, s5) \<Rightarrow> (Inl (Unhandled e), s5)
                | (None, s5) \<Rightarrow> (case exec_try s5 of (r, s6) \<Rightarrow> (Inr r, s6))))
              = module_state s4" for ds s4
  proof (cases "exec_difficulty_loop ds s4")
    case (Pair raised s5)
    have s5: "module_state s5 = module_state s4"
      using exec_difficulty_loop_module [of ds s4] Pair by simp
    show ?thesis
    proof (cases raised)
      case None
      obtain r s6 where t: "exec_try s5 = (r, s6)"
        by (cases "exec_try s5")
      with exec_try_module [of s5] have "module_state s6 = module_state s5"
        by simp
      with Pair None t s5 show ?thesis by simp
    next
      case (Some e)
      with Pair s5 show ?thesis by simp
    qed
  qed
  show ?thesis
    by (simp add: exec_recommend_def Let_def loop exec_categorical_loop_module
        split: option.splits sum.splits json.splits)
qed

lemma recommend_call_state: "snd (recommend_call st req) = st"
  using exec_recommend_module
    [of req "\<lparr>module_state = st, var_data = JNull, var_input_data = [],
              var_input_difficulties = JNull\<rparr>"]
  by (auto simp add: recommend_call_def split: prod.splits)

lemma exec_recommend_result:
  "fst (exec_recommend req s) = recommend (module_state s) req"
proof -
  have loop: "fst (case exec_difficulty_loop ds s4 of
                  (Some e, s5) \<Rightarrow> (Inl (Unhandled e), s5)
                | (None, s5) \<Rightarrow> (case exec_try s5 of (r, s6) \<Rightarrow> (Inr r, s6)))
              = (case difficulty_loop ds (var_input_difficulties s4) (var_input_data s4) of
                   Inl e \<Rightarrow> Inl (Unhandled e)
                 | Inr input_df \<Rightarrow> Inr (predict_and_respond p input_df))"
    if "pipeline (module_state s4) = Some p" for ds s4 p
  proof (cases "exec_difficulty_loop ds s4")
    case (Pair raised s5)
    have s5: "pipeline (module_state s5) = Some p"
      using exec_difficulty_loop_module [of ds s4] Pair that by simp
    show ?thesis
      using exec_difficulty_loop_row [of ds s4, symmetric] Pair s5
      by (cases raised) (simp_all add: exec_try_def)
  qed
  show ?thesis
    by (simp add: exec_recommend_def recommend_def build_row_def Let_def loop
        exec_categorical_loop_module exec_categorical_loop_row
        exec_categorical_loop_difficulties
        split: option.splits sum.splits json.splits)
qed

lemma recommend_call_result: "fst (recommend_call st req) = recommend st req"
  using exec_recommend_result
    [of req "\<lparr>module_state = st, var_data = JNull, var_input_data = [],
              var_input_difficulties = JNull\<rparr>"]
  by (auto simp add: recommend_call_def split: prod.splits)

lemma recommend_call_eq: "recommend_call st req = (recommend st req, st)"
  using recommend_call_result [of st req] recommend_call_state [of st req]
  by (cases "recommend_call st req") simp


section \<open>The claims\<close>

text \<open>
  Claim C10.  While the model is absent, every request to the handler is answered with
  status 503 and the JSON body \<open>{"error": ...}\<close>, whatever the request is: a missing
  body, a body that does not parse, a value that is no object and the empty object get
  503 too, never 400, because the test of line 83 comes before \<open>request.json\<close> of
  line 88 and the test of line 91.
\<close>

theorem absent_model_always_503:
  "pipeline st = None \<Longrightarrow>
   recommend st req = Inr (Response 503 (JObj [(ascii ''error'', JStr servico_indisponivel)]))"
  by (simp add: recommend_def error_response_def)

text \<open>The state after a failed load, with no body, the empty object and a list as body.\<close>

theorem absent_model_always_503_witness:
  "pipeline (load_failed (FileNotFoundError (ascii ''model_pipeline.pkl''))) = None
   \<and> recommend (load_failed (FileNotFoundError (ascii ''model_pipeline.pkl''))) NotJsonType
     = Inr (Response 503 (JObj [(ascii ''error'', JStr servico_indisponivel)]))
   \<and> recommend (load_failed (FileNotFoundError (ascii ''model_pipeline.pkl''))) (Json (JObj []))
     = Inr (Response 503 (JObj [(ascii ''error'', JStr servico_indisponivel)]))
   \<and> recommend (load_failed (FileNotFoundError (ascii ''model_pipeline.pkl'')))
       (Json (JList [JInt 1]))
     = Inr (Response 503 (JObj [(ascii ''error'', JStr servico_indisponivel)]))"
proof -
  have absent: "pipeline (load_failed (FileNotFoundError (ascii ''model_pipeline.pkl''))) = None"
    by simp
  show ?thesis
    using absent absent_model_always_503 [OF absent, of NotJsonType]
      absent_model_always_503 [OF absent, of "Json (JObj [])"]
      absent_model_always_503 [OF absent, of "Json (JList [JInt 1])"]
    by simp
qed




text \<open>
  Claim C7.  When \<open>joblib.load\<close> or one of the three \<open>json.load\<close> calls fails at
  startup, with \<open>FileNotFoundError\<close> or with any other exception, the loader still
  ends with a state: the pipeline is \<open>None\<close>, \<open>politicas_base\<close> is the empty dict and
  the two vocabularies are empty lists.  On that state the handler answers every
  request, a valid body included, with status 503 and a JSON error body.
\<close>

theorem load_failure_degrades_to_503:
  "isl model_pipeline_pkl \<or> isl politicas_base_json \<or> isl all_difficulties_json
     \<or> isl categorical_cols_for_ohe_json \<Longrightarrow>
   load_files model_pipeline_pkl politicas_base_json all_difficulties_json
       categorical_cols_for_ohe_json
     = \<lparr>pipeline = None, politicas_base = JObj [], all_difficulties = [],
        categorical_cols_for_ohe = []\<rparr>
   \<and> (\<forall>req. recommend (load_files model_pipeline_pkl politicas_base_json
           all_difficulties_json categorical_cols_for_ohe_json) req
         = Inr (Response 503 (JObj [(ascii ''error'', JStr servico_indisponivel)])))"
proof -
  assume fails: "isl model_pipeline_pkl \<or> isl politicas_base_json \<or> isl all_difficulties_json
     \<or> isl categorical_cols_for_ohe_json"
  have both: "load_failed e = \<lparr>pipeline = None, politicas_base = JObj [], all_difficulties = [],
        categorical_cols_for_ohe = []\<rparr>" for e
    by (cases e) simp_all
  from fails have st: "load_files model_pipeline_pkl politicas_base_json all_difficulties_json
       categorical_cols_for_ohe_json
     = \<lparr>pipeline = None, politicas_base = JObj [], all_difficulties = [],
        categorical_cols_for_ohe = []\<rparr>"
    by (auto simp add: load_files_def both isl_def split: sum.splits)
  show ?thesis
    by (simp add: st recommend_def error_response_def)
qed

text \<open>
  The model and two files load, \<open>all_difficulties.json\<close> is not valid JSON: the
  pipeline assigned at line 13 is reset, and a valid body gets 503.
\<close>

theorem load_failure_degrades_to_503_witness:
  "isl (Inl (LoadException (ascii ''Expecting value'')) :: load_exc + pystr list)
   \<and> load_files (Inr (\<lambda>input_df. Inr 0)) (Inr (JObj []))
        (Inl (LoadException (ascii ''Expecting value''))) (Inr [ascii ''Genero''])
     = \<lparr>pipeline = None, politicas_base = JObj [], all_difficulties = [],
        categorical_cols_for_ohe = []\<rparr>
   \<and> recommend
        (load_files (Inr (\<lambda>input_df. Inr 0)) (Inr (JObj []))
           (Inl (LoadException (ascii ''Expecting value''))) (Inr [ascii ''Genero'']))
        (Json (JObj [(ascii ''Genero'', JStr (ascii ''Feminino''))]))
     = Inr (Response 503 (JObj [(ascii ''error'', JStr servico_indisponivel)]))"
proof -
  have fails: "isl (Inr (\<lambda>input_df. Inr 0) :: load_exc + model) \<or> isl (Inr (JObj []) :: load_exc + json)
      \<or> isl (Inl (LoadException (ascii ''Expecting value'')) :: load_exc + pystr list)
      \<or> isl (Inr [ascii ''Genero''] :: load_exc + pystr list)"
    by simp
  show ?thesis
    using load_failure_degrades_to_503 [OF fails] by (simp add: load_files_def)
qed

text \<open>
  Claim C8.  When \<open>predict\<close> returns cluster id 0 for the row of a request, the
  response has status 200 and its body is the object with \<open>cluster\<close> equal to the
  integer 0 and \<open>recommendations\<close> equal to the five strings that
  \<open>politicas_sugeridas_por_cluster\<close> holds for 0, in their order.
\<close>

theorem cluster_0_recommendations:
  "pipeline st = Some p \<Longrightarrow> d \<noteq> [] \<Longrightarrow> build_row st d = Inr input_df \<Longrightarrow>
   p input_df = Inr 0 \<Longrightarrow>
   recommend st (Json (JObj d)) =
     Inr (Response 200
       (JObj [(ascii ''cluster'', JInt 0),
              (ascii ''recommendations'', JList
                [JStr (ascii ''Criar editais espec'' @ [237] @ ascii ''ficos para grupos vulner'' @ [225] @ ascii ''veis (PCD, baixa renda, sem forma'' @ [231] @ [227] @ ascii ''o).''),
                 JStr (ascii ''Garantir bolsas de apoio financeiro para participa'' @ [231] @ [227] @ ascii ''o em oficinas e cursos.''),
                 JStr (ascii ''Criar programas de capacita'' @ [231] @ [227] @ ascii ''o inicial em arte e cultura voltados '' @ [224] @ ascii '' inclus'' @ [227] @ ascii ''o social.''),
                 JStr (ascii ''Oferecer apoio log'' @ [237] @ ascii ''stico (transporte, alimenta'' @ [231] @ [227] @ ascii ''o) para participa'' @ [231] @ [227] @ ascii ''o em atividades culturais.''),
                 JStr (ascii ''Incentivar projetos de arte comunit'' @ [225] @ ascii ''ria em bairros perif'' @ [233] @ ascii ''ricos.'')])]))"
  by (simp add: recommend_def predict_and_respond_def recommendations_for_def
      politicas_sugeridas_por_cluster_def)

text \<open>
  The third scenario of the specification on the example state, whose model answers 0:
  two flags are 1, the third is 0, both categorical columns are defaulted.
\<close>

theorem cluster_0_recommendations_witness:
  "build_row example_state
     [(ascii ''Dificuldades_Divulgacao_Digital'', JStr (ascii ''Falta de tempo, Falta de recursos''))]
     = Inr [(ascii ''Genero'', [JStr nao_informado]),
            (ascii ''Faixa_Etaria'', [JStr nao_informado]),
            (ascii ''Dificuldade_Falta_de_tempo'', [JInt 1]),
            (ascii ''Dificuldade_Falta_de_recursos'', [JInt 1]),
            (ascii ''Dificuldade_Alcance_redes_sociais'', [JInt 0])]
   \<and> recommend example_state
     (Json (JObj [(ascii ''Dificuldades_Divulgacao_Digital'', JStr (ascii ''Falta de tempo, Falta de recursos''))]))
     = Inr (Response 200
       (JObj [(ascii ''cluster'', JInt 0),
              (ascii ''recommendations'', JList
                [JStr (ascii ''Criar editais espec'' @ [237] @ ascii ''ficos para grupos vulner'' @ [225] @ ascii ''veis (PCD, baixa renda, sem forma'' @ [231] @ [227] @ ascii ''o).''),
                 JStr (ascii ''Garantir bolsas de apoio financeiro para participa'' @ [231] @ [227] @ ascii ''o em oficinas e cursos.''),
                 JStr (ascii ''Criar programas de capacita'' @ [231] @ [227] @ ascii ''o inicial em arte e cultura voltados '' @ [224] @ ascii '' inclus'' @ [227] @ ascii ''o social.''),
                 JStr (ascii ''Oferecer apoio log'' @ [237] @ ascii ''stico (transporte, alimenta'' @ [231] @ [227] @ ascii ''o) para participa'' @ [231] @ [227] @ ascii ''o em atividades culturais.''),
                 JStr (ascii ''Incentivar projetos de arte comunit'' @ [225] @ ascii ''ria em bairros perif'' @ [233] @ ascii ''ricos.'')])]))"
proof -
  let ?d = "[(ascii ''Dificuldades_Divulgacao_Digital'', JStr (ascii ''Falta de tempo, Falta de recursos''))]"
  let ?row = "[(ascii ''Genero'', [JStr nao_informado]),
            (ascii ''Faixa_Etaria'', [JStr nao_informado]),
            (ascii ''Dificuldade_Falta_de_tempo'', [JInt 1]),
            (ascii ''Dificuldade_Falta_de_recursos'', [JInt 1]),
            (ascii ''Dificuldade_Alcance_redes_sociais'', [JInt 0])]"
  have loaded: "pipeline example_state = Some (\<lambda>input_df. Inr 0)"
    by (simp add: example_state_def)
  have nonempty: "?d \<noteq> []"
    by simp
  have row: "build_row example_state ?d = Inr ?row"
    by (simp add: build_row_def example_state_def input_difficulties_def dict_get_def
        split_difficulties_def py_strip_def isspace_def clean_difficulty_name_def ascii_def)
  have zero: "(\<lambda>input_df. Inr 0 :: py_exc + int) ?row = Inr 0"
    by simp
  show ?thesis
    using row cluster_0_recommendations [OF loaded nonempty row zero] by simp
qed

text \<open>
  Claim C4.  When \<open>predict\<close> returns an integer that is not a key of
  \<open>politicas_sugeridas_por_cluster\<close>, the response has status 200 and its
  \<open>recommendations\<close> are the one-element list with the fallback message of line 117.
  Every response of status 200 has a body with a \<open>recommendations\<close> field that is a
  non-empty list of strings.
\<close>

theorem unknown_cluster_fallback:
  "(pipeline st = Some p \<and> d \<noteq> [] \<and> build_row st d = Inr input_df \<and> p input_df = Inr c
      \<and> c \<notin> fst ` set politicas_sugeridas_por_cluster \<longrightarrow>
    recommend st (Json (JObj d)) =
      Inr (Response 200
        (JObj [(ascii ''cluster'', JInt c),
               (ascii ''recommendations'', JList [JStr nenhuma_politica])])))
   \<and> (recommend st req = Inr (Response 200 b) \<longrightarrow>
        (\<exists>k r rs. b = JObj [(ascii ''cluster'', JInt k),
                            (ascii ''recommendations'', JList (JStr r # map JStr rs))]))"
proof (intro conjI impI)
  assume "pipeline st = Some p \<and> d \<noteq> [] \<and> build_row st d = Inr input_df \<and> p input_df = Inr c
      \<and> c \<notin> fst ` set politicas_sugeridas_por_cluster"
  moreover from this have "map_of politicas_sugeridas_por_cluster c = None"
    by (simp add: map_of_eq_None_iff)
  ultimately show "recommend st (Json (JObj d)) =
      Inr (Response 200
        (JObj [(ascii ''cluster'', JInt c),
               (ascii ''recommendations'', JList [JStr nenhuma_politica])]))"
    by (simp add: recommend_def predict_and_respond_def recommendations_for_def)
next
  assume ok: "recommend st req = Inr (Response 200 b)"
  then obtain p input_df where "predict_and_respond p input_df = Response 200 b"
    by (auto simp add: recommend_def error_response_def
        split: option.splits json.splits if_splits sum.splits)
  then obtain k where b: "b = JObj [(ascii ''cluster'', JInt k),
        (ascii ''recommendations'', JList (map JStr (recommendations_for k)))]"
    by (auto dest: predict_and_respond_200)
  obtain r rs where "recommendations_for k = r # rs"
    using recommendations_for_nonempty [of k] by (cases "recommendations_for k") auto
  with b show "\<exists>k r rs. b = JObj [(ascii ''cluster'', JInt k),
                            (ascii ''recommendations'', JList (JStr r # map JStr rs))]"
    by auto
qed

text \<open>
  The example state with a model that answers 7 on every row, and a request with one
  categorical field.
\<close>

theorem unknown_cluster_fallback_witness:
  "7 \<notin> fst ` set politicas_sugeridas_por_cluster
   \<and> recommend (example_state\<lparr>pipeline := Some (\<lambda>input_df. Inr 7)\<rparr>)
       (Json (JObj [(ascii ''Genero'', JStr (ascii ''Feminino''))]))
     = Inr (Response 200
        (JObj [(ascii ''cluster'', JInt 7),
               (ascii ''recommendations'', JList [JStr nenhuma_politica])]))
   \<and> (\<exists>k r rs. JObj [(ascii ''cluster'', JInt 7),
               (ascii ''recommendations'', JList [JStr nenhuma_politica])]
        = JObj [(ascii ''cluster'', JInt k),
                (ascii ''recommendations'', JList (JStr r # map JStr rs))])"
proof -
  let ?st = "example_state\<lparr>pipeline := Some (\<lambda>input_df. Inr 7)\<rparr>"
  let ?d = "[(ascii ''Genero'', JStr (ascii ''Feminino''))]"
  let ?row = "[(ascii ''Genero'', [JStr (ascii ''Feminino'')]),
            (ascii ''Faixa_Etaria'', [JStr nao_informado]),
            (ascii ''Dificuldade_Falta_de_tempo'', [JInt 0]),
            (ascii ''Dificuldade_Falta_de_recursos'', [JInt 0]),
            (ascii ''Dificuldade_Alcance_redes_sociais'', [JInt 0])]"
  let ?b = "JObj [(ascii ''cluster'', JInt 7),
               (ascii ''recommendations'', JList [JStr nenhuma_politica])]"
  have unknown: "7 \<notin> fst ` set politicas_sugeridas_por_cluster"
    by (simp add: politicas_sugeridas_por_cluster_def)
  have row: "build_row ?st ?d = Inr ?row"
    by (simp add: build_row_def example_state_def input_difficulties_def dict_get_def
        clean_difficulty_name_def ascii_def)
  have pre: "pipeline ?st = Some (\<lambda>input_df. Inr 7) \<and> ?d \<noteq> [] \<and> build_row ?st ?d = Inr ?row
      \<and> (\<lambda>input_df. Inr 7 :: py_exc + int) ?row = Inr 7
      \<and> 7 \<notin> fst ` set politicas_sugeridas_por_cluster"
    using unknown row by simp
  note claim = unknown_cluster_fallback [of ?st "\<lambda>input_df. Inr 7" ?d ?row 7 "Json (JObj ?d)" ?b]
  from claim pre have first: "recommend ?st (Json (JObj ?d)) = Inr (Response 200 ?b)"
    by blast
  with claim have "\<exists>k r rs. ?b = JObj [(ascii ''cluster'', JInt k),
                (ascii ''recommendations'', JList (JStr r # map JStr rs))]"
    by blast
  with unknown first show ?thesis
    by blast
qed

text \<open>
  Claim C9.  Run statement by statement on a store, a call of the handler leaves the
  module-level names (the pipeline, \<open>politicas_base\<close> and the two vocabularies) as it
  found them, for every request and on every path, the paths that end in an exception
  included; what it returns is the result of \<open>recommend\<close>, determined by those names
  and the request.  So the
  process that handles the same request twice gives the same result both times (the
  same status, cluster id and recommendations, or the same error), also with other
  requests before and between, and after any sequence of requests the module state is
  the one loaded at startup.  The model is a function from the feature row to its
  answer.
\<close>

theorem same_body_same_response:
  "snd (recommend_call st req) = st
   \<and> fst (recommend_call st req) = recommend st req
   \<and> fst (recommend_call (snd (recommend_call st req)) req) = fst (recommend_call st req)
   \<and> snd (serve st reqs) = st
   \<and> fst (serve st (reqs @ req # reqs' @ [req])) ! length reqs
       = fst (serve st (reqs @ req # reqs' @ [req])) ! (length reqs + Suc (length reqs'))"
proof (intro conjI)
  show first: "snd (recommend_call st req) = st"
    by (rule recommend_call_state)
  show "fst (recommend_call st req) = recommend st req"
    by (rule recommend_call_result)
  show "fst (recommend_call (snd (recommend_call st req)) req) = fst (recommend_call st req)"
    by (simp only: first)
  have left: "snd (serve st' rs) = st'" for st' rs
  proof (induction rs arbitrary: st')
    case Nil
    show ?case by simp
  next
    case (Cons r rs)
    obtain x st1 where c: "recommend_call st' r = (x, st1)"
      by (cases "recommend_call st' r")
    with recommend_call_state [of st' r] have "st1 = st'"
      by simp
    with c Cons [of st'] show ?case
      by (auto split: prod.splits)
  qed
  show "snd (serve st reqs) = st"
    by (rule left)
  have results: "fst (serve st' rs) = map (\<lambda>r. fst (recommend_call st' r)) rs" for st' rs
  proof (induction rs)
    case Nil
    show ?case by simp
  next
    case (Cons r rs)
    obtain x st1 where c: "recommend_call st' r = (x, st1)"
      by (cases "recommend_call st' r")
    with recommend_call_state [of st' r] have "st1 = st'"
      by simp
    with c Cons show ?case
      by (auto split: prod.splits)
  qed
  show "fst (serve st (reqs @ req # reqs' @ [req])) ! length reqs
       = fst (serve st (reqs @ req # reqs' @ [req])) ! (length reqs + Suc (length reqs'))"
    by (simp add: results nth_append)
qed

text \<open>
  The third scenario of the specification sent twice on the example state, once after
  an empty object and with a request that raises in between.
\<close>

theorem same_body_same_response_witness:
  "snd (recommend_call example_state
      (Json (JObj [(ascii ''Dificuldades_Divulgacao_Digital'',
                    JStr (ascii ''Falta de tempo, Falta de recursos''))]))) = example_state
   \<and> snd (serve example_state
        [Json (JObj []),
         Json (JObj [(ascii ''Dificuldades_Divulgacao_Digital'',
                      JStr (ascii ''Falta de tempo, Falta de recursos''))]),
         Json (JObj [(ascii ''Dificuldades_Divulgacao_Digital'', JInt 5)]),
         Json (JObj [(ascii ''Dificuldades_Divulgacao_Digital'',
                      JStr (ascii ''Falta de tempo, Falta de recursos''))])]) = example_state
   \<and> fst (serve example_state
        [Json (JObj []),
         Json (JObj [(ascii ''Dificuldades_Divulgacao_Digital'',
                      JStr (ascii ''Falta de tempo, Falta de recursos''))]),
         Json (JObj [(ascii ''Dificuldades_Divulgacao_Digital'', JInt 5)]),
         Json (JObj [(ascii ''Dificuldades_Divulgacao_Digital'',
                      JStr (ascii ''Falta de tempo, Falta de recursos''))])]) ! 1
     = fst (serve example_state
        [Json (JObj []),
         Json (JObj [(ascii ''Dificuldades_Divulgacao_Digital'',
                      JStr (ascii ''Falta de tempo, Falta de recursos''))]),
         Json (JObj [(ascii ''Dificuldades_Divulgacao_Digital'', JInt 5)]),
         Json (JObj [(ascii ''Dificuldades_Divulgacao_Digital'',
                      JStr (ascii ''Falta de tempo, Falta de recursos''))])]) ! 3"
  using same_body_same_response
    [of example_state
      "Json (JObj [(ascii ''Dificuldades_Divulgacao_Digital'',
                    JStr (ascii ''Falta de tempo, Falta de recursos''))])"
      "[Json (JObj [])]"
      "[Json (JObj [(ascii ''Dificuldades_Divulgacao_Digital'', JInt 5)])]"]
    same_body_same_response
    [of example_state
      "Json (JObj [(ascii ''Dificuldades_Divulgacao_Digital'',
                    JStr (ascii ''Falta de tempo, Falta de recursos''))])"
      "[Json (JObj []),
         Json (JObj [(ascii ''Dificuldades_Divulgacao_Digital'',
                      JStr (ascii ''Falta de tempo, Falta de recursos''))]),
         Json (JObj [(ascii ''Dificuldades_Divulgacao_Digital'', JInt 5)]),
         Json (JObj [(ascii ''Dificuldades_Divulgacao_Digital'',
                      JStr (ascii ''Falta de tempo, Falta de recursos''))])]"
      "[]"]
  by (simp del: serve.simps add: eval_nat_numeral)

text \<open>
  Claim C1, amended.  Let the model be loaded and the body be a non-empty object whose
  \<open>Dificuldades_Divulgacao_Digital\<close> field is absent, a string, a list or an object.
  Then the handler builds a feature row and answers with the response of the \<open>try\<close>
  block; no exception leaves it.  For every name of \<open>categorical_cols_for_ohe\<close> that is not the
  cleaned column name of a tag of \<open>all_difficulties\<close>, the row holds under that name
  the one-element list with the object's value for the name, and with
  \<open>Nao informado\<close> (a-tilde for the first a) when the object has no entry.
\<close>

theorem categorical_column_value_or_default:
  assumes "pipeline st = Some p" and "d \<noteq> []"
    and "col \<in> set (categorical_cols_for_ohe st)"
    and "col \<notin> clean_difficulty_name ` set (all_difficulties st)"
    and "map_of d (ascii ''Dificuldades_Divulgacao_Digital'') = None
         \<or> (\<exists>s. map_of d (ascii ''Dificuldades_Divulgacao_Digital'') = Some (JStr s))
         \<or> (\<exists>xs. map_of d (ascii ''Dificuldades_Divulgacao_Digital'') = Some (JList xs))
         \<or> (\<exists>kvs. map_of d (ascii ''Dificuldades_Divulgacao_Digital'') = Some (JObj kvs))"
  shows "\<exists>input_df. build_row st d = Inr input_df
           \<and> recommend st (Json (JObj d)) = Inr (predict_and_respond p input_df)
           \<and> map_of input_df col =
               Some [case map_of d col of None \<Rightarrow> JStr nao_informado | Some v \<Rightarrow> v]"
proof -
  from assms(5) have "(\<exists>xs. input_difficulties d = JList xs)
      \<or> (\<exists>kvs. input_difficulties d = JObj kvs)"
    by (auto simp add: input_difficulties_def dict_get_def)
  then obtain input_df where row: "build_row st d = Inr input_df"
  proof
    assume "\<exists>xs. input_difficulties d = JList xs"
    then obtain xs where inp: "input_difficulties d = JList xs" ..
    show ?thesis
      using that difficulty_loop_list_total
        [of "all_difficulties st" xs "categorical_loop (categorical_cols_for_ohe st) d []"]
      by (auto simp add: build_row_def inp)
  next
    assume "\<exists>kvs. input_difficulties d = JObj kvs"
    then obtain kvs where inp: "input_difficulties d = JObj kvs" ..
    show ?thesis
      using that difficulty_loop_dict_total
        [of "all_difficulties st" kvs "categorical_loop (categorical_cols_for_ohe st) d []"]
      by (auto simp add: build_row_def inp)
  qed
  then have "map_of input_df col = map_of (categorical_loop (categorical_cols_for_ohe st) d []) col"
    using assms(4) by (auto simp add: build_row_def dest: map_of_difficulty_loop_other)
  with assms(3)
  have "map_of input_df col = Some [case map_of d col of None \<Rightarrow> JStr nao_informado | Some v \<Rightarrow> v]"
    by (simp add: map_of_categorical_loop dict_get_def)
  moreover from row assms(1,2)
  have "recommend st (Json (JObj d)) = Inr (predict_and_respond p input_df)"
    by (simp add: recommend_def)
  ultimately show ?thesis
    using row by blast
qed

text \<open>
  A request with \<open>Genero\<close> and without \<open>Faixa_Etaria\<close> on the example state: the first
  column holds the value sent, the second the default.
\<close>

theorem categorical_column_value_or_default_witness:
  "(\<exists>input_df.
      build_row example_state [(ascii ''Genero'', JStr (ascii ''Feminino''))] = Inr input_df
      \<and> recommend example_state (Json (JObj [(ascii ''Genero'', JStr (ascii ''Feminino''))]))
          = Inr (predict_and_respond (\<lambda>input_df. Inr 0) input_df)
      \<and> map_of input_df (ascii ''Faixa_Etaria'') = Some [JStr nao_informado])
   \<and> (\<exists>input_df.
      build_row example_state [(ascii ''Genero'', JStr (ascii ''Feminino''))] = Inr input_df
      \<and> recommend example_state (Json (JObj [(ascii ''Genero'', JStr (ascii ''Feminino''))]))
          = Inr (predict_and_respond (\<lambda>input_df. Inr 0) input_df)
      \<and> map_of input_df (ascii ''Genero'') = Some [JStr (ascii ''Feminino'')])"
proof -
  let ?d = "[(ascii ''Genero'', JStr (ascii ''Feminino''))]"
  have loaded: "pipeline example_state = Some (\<lambda>input_df. Inr 0)"
    by (simp add: example_state_def)
  have nonempty: "?d \<noteq> []"
    by simp
  have col1: "ascii ''Faixa_Etaria'' \<in> set (categorical_cols_for_ohe example_state)"
    and col2: "ascii ''Genero'' \<in> set (categorical_cols_for_ohe example_state)"
    by (simp_all add: example_state_def)
  have other1: "ascii ''Faixa_Etaria'' \<notin> clean_difficulty_name ` set (all_difficulties example_state)"
    and other2: "ascii ''Genero'' \<notin> clean_difficulty_name ` set (all_difficulties example_state)"
    by (simp_all add: example_state_def clean_difficulty_name_def ascii_def)
  have field: "map_of ?d (ascii ''Dificuldades_Divulgacao_Digital'') = None
         \<or> (\<exists>s. map_of ?d (ascii ''Dificuldades_Divulgacao_Digital'') = Some (JStr s))
         \<or> (\<exists>xs. map_of ?d (ascii ''Dificuldades_Divulgacao_Digital'') = Some (JList xs))
         \<or> (\<exists>kvs. map_of ?d (ascii ''Dificuldades_Divulgacao_Digital'') = Some (JObj kvs))"
    by (simp add: ascii_def)
  have absent: "map_of ?d (ascii ''Faixa_Etaria'') = None"
    and present: "map_of ?d (ascii ''Genero'') = Some (JStr (ascii ''Feminino''))"
    by (simp_all add: ascii_def)
  show ?thesis
    using categorical_column_value_or_default [OF loaded nonempty col1 other1 field]
      categorical_column_value_or_default [OF loaded nonempty col2 other2 field]
    by (simp only: absent present option.case)
qed

text \<open>
  The claim as written fails when a categorical column bears the cleaned name of a
  difficulty tag: line 107 assigns to the key that line 97 filled, and the row holds the
  flag.  The object has no entry for the column, and the row does not hold the default.
\<close>

theorem categorical_column_overwritten_counterexample:
  "ascii ''Dificuldade_Idade''
     \<in> set (categorical_cols_for_ohe
        \<lparr>pipeline = Some (\<lambda>input_df. Inr 0), politicas_base = JObj [],
         all_difficulties = [ascii ''Idade''],
         categorical_cols_for_ohe = [ascii ''Genero'', ascii ''Dificuldade_Idade'']\<rparr>)
   \<and> map_of [(ascii ''Genero'', JStr (ascii ''Feminino''))] (ascii ''Dificuldade_Idade'') = None
   \<and> build_row
        \<lparr>pipeline = Some (\<lambda>input_df. Inr 0), politicas_base = JObj [],
         all_difficulties = [ascii ''Idade''],
         categorical_cols_for_ohe = [ascii ''Genero'', ascii ''Dificuldade_Idade'']\<rparr>
        [(ascii ''Genero'', JStr (ascii ''Feminino''))]
      = Inr [(ascii ''Genero'', [JStr (ascii ''Feminino'')]),
             (ascii ''Dificuldade_Idade'', [JInt 0])]
   \<and> map_of [(ascii ''Genero'', [JStr (ascii ''Feminino'')]),
             (ascii ''Dificuldade_Idade'', [JInt 0])] (ascii ''Dificuldade_Idade'')
      \<noteq> Some [JStr nao_informado]"
  by (simp add: build_row_def input_difficulties_def dict_get_def clean_difficulty_name_def
      ascii_def)

text \<open>
  Claim C2, amended.  A string in the difficulties field is split on commas, each
  segment is stripped of surrounding white space and the segments that are empty after
  stripping are dropped.  For a list of strings each of which is non-empty, has no
  comma and neither starts nor ends with white space, the string that joins the list
  with commas (white space allowed around each comma) is read as that same list: the two
  requests that differ only in sending the joined string or the list of strings get
  feature rows with the same 0/1 flag under the column of every difficulty tag.
\<close>

theorem joined_string_same_flags_as_list:
  assumes "\<forall>t\<in>set L. t \<noteq> [] \<and> 44 \<notin> set t \<and> \<not> isspace (hd t) \<and> \<not> isspace (last t)"
    and "\<forall>c\<in>set pre. isspace c" and "\<forall>c\<in>set post. isspace c"
  shows "input_difficulties ((ascii ''Dificuldades_Divulgacao_Digital'', JStr s) # d)
           = JList (map JStr (filter (\<lambda>x. x \<noteq> []) (map py_strip (py_split 44 s))))
         \<and> input_difficulties
             ((ascii ''Dificuldades_Divulgacao_Digital'', JStr (py_join (pre @ 44 # post) L)) # d)
           = input_difficulties
             ((ascii ''Dificuldades_Divulgacao_Digital'', JList (map JStr L)) # d)
         \<and> (\<exists>row_str row_list.
               build_row st
                 ((ascii ''Dificuldades_Divulgacao_Digital'', JStr (py_join (pre @ 44 # post) L)) # d)
                 = Inr row_str
             \<and> build_row st
                 ((ascii ''Dificuldades_Divulgacao_Digital'', JList (map JStr L)) # d)
                 = Inr row_list
             \<and> (\<forall>t\<in>set (all_difficulties st).
                   map_of row_str (clean_difficulty_name t)
                     = map_of row_list (clean_difficulty_name t)))"
proof -
  let ?F = "ascii ''Dificuldades_Divulgacao_Digital''"
  let ?ds = "(?F, JStr (py_join (pre @ 44 # post) L)) # d"
  let ?dl = "(?F, JList (map JStr L)) # d"
  have split: "input_difficulties ((?F, JStr s) # d)
           = JList (map JStr (filter (\<lambda>x. x \<noteq> []) (map py_strip (py_split 44 s))))"
    by (simp add: input_difficulties_def dict_get_def split_difficulties_def filter_map o_def)
  have "split_difficulties (py_join (pre @ 44 # post) L) = L"
    using assms(2,3,1) by (rule split_join)
  then have str: "input_difficulties ?ds = JList (map JStr L)"
    by (simp add: input_difficulties_def dict_get_def)
  have lst: "input_difficulties ?dl = JList (map JStr L)"
    by (simp add: input_difficulties_def dict_get_def)
  obtain row_str where rs: "build_row st ?ds = Inr row_str"
    using difficulty_loop_list_total
      [of "all_difficulties st" "map JStr L" "categorical_loop (categorical_cols_for_ohe st) ?ds []"]
    by (auto simp add: build_row_def str)
  obtain row_list where rl: "build_row st ?dl = Inr row_list"
    using difficulty_loop_list_total
      [of "all_difficulties st" "map JStr L" "categorical_loop (categorical_cols_for_ohe st) ?dl []"]
    by (auto simp add: build_row_def lst)
  have "map_of row_str (clean_difficulty_name t) = map_of row_list (clean_difficulty_name t)"
    if "t \<in> set (all_difficulties st)" for t
  proof (rule map_of_difficulty_loop_flag)
    show "difficulty_loop (all_difficulties st) (JList (map JStr L))
            (categorical_loop (categorical_cols_for_ohe st) ?ds []) = Inr row_str"
      using rs by (simp add: build_row_def str)
    show "difficulty_loop (all_difficulties st) (JList (map JStr L))
            (categorical_loop (categorical_cols_for_ohe st) ?dl []) = Inr row_list"
      using rl by (simp add: build_row_def lst)
    show "clean_difficulty_name t \<in> clean_difficulty_name ` set (all_difficulties st)"
      using that by simp
  qed
  with split str lst rs rl show ?thesis
    by auto
qed

text \<open>
  The third scenario of the specification: the two tags joined with a comma and a
  space, against the list of the two tags, on the example state.
\<close>

theorem joined_string_same_flags_as_list_witness:
  "py_join ([] @ 44 # ascii '' '') [ascii ''Falta de tempo'', ascii ''Falta de recursos'']
     = ascii ''Falta de tempo, Falta de recursos''
   \<and> input_difficulties
       [(ascii ''Dificuldades_Divulgacao_Digital'', JStr (ascii ''Falta de tempo, Falta de recursos''))]
     = input_difficulties
       [(ascii ''Dificuldades_Divulgacao_Digital'',
         JList [JStr (ascii ''Falta de tempo''), JStr (ascii ''Falta de recursos'')])]
   \<and> (\<exists>row_str row_list.
         build_row example_state
           [(ascii ''Dificuldades_Divulgacao_Digital'', JStr (ascii ''Falta de tempo, Falta de recursos''))]
           = Inr row_str
       \<and> build_row example_state
           [(ascii ''Dificuldades_Divulgacao_Digital'',
             JList [JStr (ascii ''Falta de tempo''), JStr (ascii ''Falta de recursos'')])]
           = Inr row_list
       \<and> (\<forall>t\<in>set (all_difficulties example_state).
             map_of row_str (clean_difficulty_name t) = map_of row_list (clean_difficulty_name t)))"
proof -
  let ?L = "[ascii ''Falta de tempo'', ascii ''Falta de recursos'']"
  have tags: "\<forall>t\<in>set ?L. t \<noteq> [] \<and> 44 \<notin> set t \<and> \<not> isspace (hd t) \<and> \<not> isspace (last t)"
    by (simp add: ascii_def isspace_def)
  have pre: "\<forall>c\<in>set ([] :: pystr). isspace c"
    by simp
  have post: "\<forall>c\<in>set (ascii '' ''). isspace c"
    by (simp add: ascii_def isspace_def)
  have joined: "py_join ([] @ 44 # ascii '' '') ?L = ascii ''Falta de tempo, Falta de recursos''"
    by (simp add: ascii_def)
  show ?thesis
    using joined joined_string_same_flags_as_list [OF tags pre post, of "[]" "[]" example_state]
    by simp
qed

text \<open>
  The claim as written fails for a tag that has a comma in it: sent in a list it sets
  its flag, sent as the string that joins the list it is cut in two and sets none.
\<close>

theorem joined_string_with_comma_counterexample:
  "py_join (ascii '','') [ascii ''Falta de tempo, de recursos'']
     = ascii ''Falta de tempo, de recursos''
   \<and> build_row
       \<lparr>pipeline = Some (\<lambda>input_df. Inr 0), politicas_base = JObj [],
        all_difficulties = [ascii ''Falta de tempo, de recursos''],
        categorical_cols_for_ohe = []\<rparr>
       [(ascii ''Dificuldades_Divulgacao_Digital'',
         JList (map JStr [ascii ''Falta de tempo, de recursos'']))]
     = Inr [(ascii ''Dificuldade_Falta_de_tempo,_de_recursos'', [JInt 1])]
   \<and> build_row
       \<lparr>pipeline = Some (\<lambda>input_df. Inr 0), politicas_base = JObj [],
        all_difficulties = [ascii ''Falta de tempo, de recursos''],
        categorical_cols_for_ohe = []\<rparr>
       [(ascii ''Dificuldades_Divulgacao_Digital'',
         JStr (py_join (ascii '','') [ascii ''Falta de tempo, de recursos'']))]
     = Inr [(ascii ''Dificuldade_Falta_de_tempo,_de_recursos'', [JInt 0])]"
  by (simp add: build_row_def input_difficulties_def dict_get_def split_difficulties_def
      py_strip_def isspace_def clean_difficulty_name_def ascii_def)

text \<open>
  Claim C3, at a failing input.  The field \<open>Dificuldades_Divulgacao_Digital\<close> holds the
  number 5 and \<open>all_difficulties\<close> has a tag: the membership test of line 107 raises
  \<open>TypeError\<close>, line 107 is not inside a \<open>try\<close>, and the exception leaves the handler.
  The value is not taken as the empty sequence.  An object in the field is not taken as
  the empty sequence either: the flag of a tag that is a key of the object is 1.
\<close>

theorem number_in_difficulties_raises:
  "recommend
     \<lparr>pipeline = Some p, politicas_base = pb,
      all_difficulties = [ascii ''Falta de tempo''], categorical_cols_for_ohe = cols\<rparr>
     (Json (JObj [(ascii ''Dificuldades_Divulgacao_Digital'', JInt 5)]))
     = Inl (Unhandled (not_iterable (JInt 5)))
   \<and> build_row
     \<lparr>pipeline = Some p, politicas_base = pb,
      all_difficulties = [ascii ''Falta de tempo''], categorical_cols_for_ohe = []\<rparr>
     [(ascii ''Dificuldades_Divulgacao_Digital'', JObj [(ascii ''Falta de tempo'', JNull)])]
     = Inr [(ascii ''Dificuldade_Falta_de_tempo'', [JInt 1])]"
  by (simp add: recommend_def build_row_def input_difficulties_def dict_get_def
      clean_difficulty_name_def ascii_def)

text \<open>
  Claim C5, at a failing input.  The field \<open>Dificuldades_Divulgacao_Digital\<close> holds
  \<open>null\<close> and \<open>all_difficulties\<close> has a tag: row assembly raises \<open>TypeError\<close> at line
  107, before the \<open>try\<close> of line 112, so the handler ends with that exception and
  builds no response, neither 400 nor 500.
\<close>

theorem row_assembly_exception_escapes:
  "recommend
     \<lparr>pipeline = Some p, politicas_base = pb,
      all_difficulties = [ascii ''Falta de tempo''], categorical_cols_for_ohe = cols\<rparr>
     (Json (JObj [(ascii ''Dificuldades_Divulgacao_Digital'', JNull)]))
     = Inl (Unhandled (not_iterable JNull))"
  by (simp add: recommend_def build_row_def input_difficulties_def dict_get_def ascii_def)


end
